theory Spec2Isabelle
  imports Main
begin

section \<open>The OpenStack Swift to S3 transfer script\<close>

text \<open>
  A shallow embedding of \<^verbatim>\<open>openstack_s3_transfer.py\<close>. The script talks to two object
  stores and to the local filesystem. The stores are outside the program, so their answers
  are parameters of the model (the record \<open>env\<close>); everything the script itself changes
  or causes is kept in the record \<open>world\<close>, which every function takes and returns:
  the staged files and directories, the destination bucket, the log, and the trace of the
  calls made to the collaborators in the order in which they were made.

  Python exceptions are values: a function returns \<open>Inl e\<close> where the source raises
  \<open>e\<close>. The three \<^verbatim>\<open>while\<close> loops of the source have no bound of their own (a
  listing that never ends, a token that expires on every upload), so they are
  partial functions into \<open>option\<close> and \<open>None\<close> is a run that never returns.
\<close>

subsection \<open>Data\<close>

type_synonym key = string
type_synonym path = string
type_synonym bytes = string

text \<open>
  \<^verbatim>\<open>botocore.exceptions.ClientError\<close> carries the code the script inspects
  (\<^verbatim>\<open>error.response["Error"]["Code"]\<close>) and the text it prints (\<^verbatim>\<open>str(error)\<close>).
  Every other exception is not caught anywhere in the script.
\<close>

datatype exn = ClientError (err_code: string) (err_text: string) | OtherError string

datatype log_level = DEBUG | INFO | WARNING | ERROR

datatype event =
    GetContainer string "string option"
  | GetObject string key
  | HeadBucket string
  | HeadObject string key
  | PutObject string key
  | UploadFile path string key
  | ListObjectsV2 string "string option"
  | RefreshCredentials
  | Sleep nat

record swift_object =
  name :: key
  bytes :: nat

record list_response =
  Contents :: "key list option"
  IsTruncated :: bool
  NextContinuationToken :: "string option"

record world =
  files :: "path \<rightharpoonup> bytes"
  dirs :: "path set"
  s3_objects :: "key \<rightharpoonup> bytes"
  log :: "(log_level \<times> string) list"
  trace :: "event list"

text \<open>
  The collaborators. \<open>s3_upload_file\<close> is asked with the number of upload calls made so
  far, so that an upload may fail twice and then succeed; \<open>None\<close> is success.
  \<open>s3_head_object\<close> and \<open>s3_list_objects_v2\<close> see the bucket as it is when they are
  called. \<open>md5_hexdigest\<close> is \<^verbatim>\<open>hashlib.md5(...).hexdigest()\<close> of the bytes fed to it.
\<close>

record env =
  swift_get_container :: "string \<Rightarrow> string option \<Rightarrow> exn + swift_object list"
  swift_get_object :: "string \<Rightarrow> key \<Rightarrow> exn + bytes"
  s3_head_bucket :: "string \<Rightarrow> exn option"
  s3_head_object :: "(key \<rightharpoonup> bytes) \<Rightarrow> string \<Rightarrow> key \<Rightarrow> exn + string"
  s3_put_object :: "string \<Rightarrow> key \<Rightarrow> exn option"
  s3_upload_file :: "nat \<Rightarrow> exn option"
  s3_list_objects_v2 :: "(key \<rightharpoonup> bytes) \<Rightarrow> string \<Rightarrow> string option \<Rightarrow> exn + list_response"
  md5_hexdigest :: "bytes \<Rightarrow> string"

subsection \<open>Strings, paths and the logger\<close>

fun string_of_nat :: "nat \<Rightarrow> string" where
  "string_of_nat n =
     (if n < 10 then [char_of (48 + n)]
      else string_of_nat (n div 10) @ [char_of (48 + n mod 10)])"

declare string_of_nat.simps [simp del]

definition endswith :: "string \<Rightarrow> string \<Rightarrow> bool" where
  "endswith s suffix \<longleftrightarrow>
     length suffix \<le> length s \<and> drop (length s - length suffix) s = suffix"

definition startswith :: "string \<Rightarrow> string \<Rightarrow> bool" where
  "startswith s pre \<longleftrightarrow> take (length pre) s = pre"

text \<open>\<^verbatim>\<open>s.strip('"')\<close>: the double quotes at both ends are dropped.\<close>

definition strip_quotes :: "string \<Rightarrow> string" where
  "strip_quotes s =
     rev (dropWhile (\<lambda>c. c = CHR 0x22) (rev (dropWhile (\<lambda>c. c = CHR 0x22) s)))"

text \<open>\<^verbatim>\<open>os.path.join\<close> of two components and \<^verbatim>\<open>os.path.dirname\<close>, as posixpath has them.\<close>

definition path_join :: "path \<Rightarrow> path \<Rightarrow> path" where
  "path_join a b =
     (if startswith b ''/'' then b
      else if a = [] \<or> endswith a ''/'' then a @ b
      else a @ ''/'' @ b)"

definition dirname :: "path \<Rightarrow> path" where
  "dirname p =
     (let head = rev (dropWhile (\<lambda>c. c \<noteq> CHR ''/'') (rev p))
      in if head \<noteq> [] \<and> \<not> list_all (\<lambda>c. c = CHR ''/'') head
         then rev (dropWhile (\<lambda>c. c = CHR ''/'') (rev head))
         else head)"

text \<open>
  The only logger of the script is the one \<^verbatim>\<open>create_logger\<close> configures, at level
  \<^verbatim>\<open>INFO\<close>: a call of \<^verbatim>\<open>logger.debug\<close> writes nothing, every other call adds its
  record to the log.
\<close>

definition logger :: "log_level \<Rightarrow> string \<Rightarrow> world \<Rightarrow> world" where
  "logger lvl msg w = (if lvl = DEBUG then w else w\<lparr>log := log w @ [(lvl, msg)]\<rparr>)"

definition emit :: "event \<Rightarrow> world \<Rightarrow> world" where
  "emit ev w = w\<lparr>trace := trace w @ [ev]\<rparr>"

subsection \<open>The filesystem\<close>

text \<open>
  The filesystem of the model holds regular files and directories under their paths. It
  has no symbolic links, no permissions and no limits, and it compares paths as they are
  written: what is said below about staging is said of paths that are written plainly
  (\<open>plain\<close>), so that a file or a directory has one path only.

  \<^verbatim>\<open>os.makedirs(p, exist_ok=True)\<close> creates \<open>p\<close> and every directory above it that
  is missing. It raises when \<open>p\<close> is the empty path, when \<open>p\<close> is a regular file and
  when a regular file is in the way above \<open>p\<close>; nothing is created then.
\<close>

fun dir_chain :: "path \<Rightarrow> path \<Rightarrow> path list" where
  "dir_chain acc [] = [acc]"
| "dir_chain acc (c # cs) =
     (if c = CHR ''/'' \<and> acc \<noteq> [] \<and> \<not> endswith acc ''/'' then [acc] else [])
     @ dir_chain (acc @ [c]) cs"

definition makedirs :: "path \<Rightarrow> world \<Rightarrow> exn + world" where
  "makedirs p w =
     (if p = [] then Inl (OtherError ''FileNotFoundError'')
      else if files w p \<noteq> None then Inl (OtherError ''FileExistsError'')
      else if \<exists>d \<in> set (dir_chain [] p). files w d \<noteq> None
        then Inl (OtherError ''NotADirectoryError'')
      else Inr (w\<lparr>dirs := dirs w \<union> set (dir_chain [] p)\<rparr>))"

text \<open>
  \<^verbatim>\<open>open(p, "wb")\<close> followed by the write of the whole content. Opening raises when
  the directory of \<open>p\<close> is missing or is a regular file, and when \<open>p\<close> names a
  directory: one that exists, or by its last component (empty, \<^verbatim>\<open>.\<close> or \<^verbatim>\<open>..\<close>).
\<close>

definition basename :: "path \<Rightarrow> path" where
  "basename p = rev (takeWhile (\<lambda>c. c \<noteq> CHR ''/'') (rev p))"

definition write_file :: "path \<Rightarrow> bytes \<Rightarrow> world \<Rightarrow> exn + world" where
  "write_file p content w =
     (if p = [] then Inl (OtherError ''FileNotFoundError'')
      else if dirname p \<noteq> [] \<and> files w (dirname p) \<noteq> None
        then Inl (OtherError ''NotADirectoryError'')
      else if dirname p \<noteq> [] \<and> dirname p \<notin> dirs w
        then Inl (OtherError ''FileNotFoundError'')
      else if p \<in> dirs w \<or> basename p = [] \<or> basename p = ''.'' \<or> basename p = ''..''
        then Inl (OtherError ''IsADirectoryError'')
      else Inr (w\<lparr>files := (files w)(p \<mapsto> content)\<rparr>))"

definition under :: "path \<Rightarrow> path \<Rightarrow> bool" where
  "under root p \<longleftrightarrow> p = root \<or> startswith p (if endswith root ''/'' then root else root @ ''/'')"

definition create_temp_directory :: "path \<Rightarrow> world \<Rightarrow> exn + world" where
  "create_temp_directory tempDirectory w = makedirs tempDirectory w"

definition path_exists :: "world \<Rightarrow> path \<Rightarrow> bool" where
  "path_exists w p \<longleftrightarrow> p \<in> dirs w \<or> files w p \<noteq> None"

text \<open>
  \<^verbatim>\<open>shutil.rmtree(p)\<close> removes the directory \<open>p\<close> and everything below it, and raises
  when \<open>p\<close> is a regular file, which it leaves in place.
\<close>

definition remove_temp_directory :: "path \<Rightarrow> world \<Rightarrow> exn + world" where
  "remove_temp_directory tempDirectory w =
     (if path_exists w tempDirectory then
        (if tempDirectory \<in> dirs w then
           Inr (logger INFO ''Temporary files have been removed''
                  (w\<lparr>files := (\<lambda>p. if under tempDirectory p then None else files w p),
                     dirs := {p \<in> dirs w. \<not> under tempDirectory p}\<rparr>))
         else Inl (OtherError ''NotADirectoryError''))
      else Inr w)"

text \<open>
  \<^verbatim>\<open>os.remove(p)\<close> removes the regular file \<open>p\<close>, and raises when \<open>p\<close> is a
  directory and when there is no such file. \<open>remove_file p w\<close> is the world \<open>w\<close>
  without the file.
\<close>

definition remove_file :: "path \<Rightarrow> world \<Rightarrow> world" where
  "remove_file p w = w\<lparr>files := (files w)(p := None)\<rparr>"

definition os_remove :: "path \<Rightarrow> world \<Rightarrow> exn + world" where
  "os_remove p w =
     (if p \<in> dirs w then Inl (OtherError ''IsADirectoryError'')
      else if files w p = None then Inl (OtherError ''FileNotFoundError'')
      else Inr (remove_file p w))"

subsection \<open>calculate\_md5\<close>

function chunks :: "nat \<Rightarrow> bytes \<Rightarrow> bytes list" where
  "chunks n xs = (if n = 0 \<or> xs = [] then [] else take n xs # chunks n (drop n xs))"
  by pat_completeness auto
termination
  by (relation "measure (\<lambda>(n, xs). length xs)") auto

declare chunks.simps [simp del]

text \<open>
  The file is read 4096 bytes at a time and every chunk is fed to the hash; the digest
  is that of all the bytes fed. A missing file is the exception \<^verbatim>\<open>open\<close> raises.
\<close>

definition calculate_md5 :: "env \<Rightarrow> world \<Rightarrow> path \<Rightarrow> exn + string" where
  "calculate_md5 E w filePath =
     (case files w filePath of
        None \<Rightarrow> Inl (OtherError ''FileNotFoundError'')
      | Some content \<Rightarrow>
          Inr (md5_hexdigest E (foldl (\<lambda>hashMD5 chunk. hashMD5 @ chunk) [] (chunks 4096 content))))"

subsection \<open>upload\_file\_with\_retry\<close>

definition n_uploads :: "world \<Rightarrow> nat" where
  "n_uploads w = length (filter (\<lambda>ev. case ev of UploadFile _ _ _ \<Rightarrow> True | _ \<Rightarrow> False) (trace w))"

text \<open>
  One call of \<^verbatim>\<open>s3Client.upload_file\<close>: the call is traced, and on success the bucket
  holds the bytes of the local file under the key.
\<close>

definition upload_file :: "env \<Rightarrow> path \<Rightarrow> string \<Rightarrow> key \<Rightarrow> world \<Rightarrow> exn option \<times> world" where
  "upload_file E localFilePath bucketName objectName w =
     (let w1 = emit (UploadFile localFilePath bucketName objectName) w
      in case files w localFilePath of
           None \<Rightarrow> (Some (OtherError ''FileNotFoundError''), w1)
         | Some content \<Rightarrow>
             (case s3_upload_file E (n_uploads w) of
                Some e \<Rightarrow> (Some e, w1)
              | None \<Rightarrow> (None, w1\<lparr>s3_objects := (s3_objects w1)(objectName \<mapsto> content)\<rparr>)))"

definition refresh_credentials :: "world \<Rightarrow> world" where
  "refresh_credentials w = emit RefreshCredentials w"

partial_function (option) upload_loop ::
  "env \<Rightarrow> path \<Rightarrow> string \<Rightarrow> key \<Rightarrow> nat \<Rightarrow> nat \<Rightarrow> world \<Rightarrow> ((exn + bool) \<times> world) option"
where
  "upload_loop E localFilePath bucketName objectName retries attempt w =
     (if attempt < retries then
        (case upload_file E localFilePath bucketName objectName w of
           (None, w1) \<Rightarrow>
             Some (Inr True,
               logger INFO (objectName @ '' uploaded successfully on attempt ''
                            @ string_of_nat (attempt + 1) @ ''.'') w1)
         | (Some (ClientError code text), w1) \<Rightarrow>
             if code = ''ExpiredToken'' then
               upload_loop E localFilePath bucketName objectName retries attempt
                 (refresh_credentials
                    (logger WARNING ''AWS session expired. Requesting new credentials.'' w1))
             else
               upload_loop E localFilePath bucketName objectName retries (attempt + 1)
                 (emit (Sleep (2 ^ (attempt + 1)))
                    (logger ERROR (''Failed to upload '' @ objectName @ '' (attempt ''
                       @ string_of_nat (attempt + 1 + 1) @ ''/'' @ string_of_nat retries
                       @ ''): '' @ text) w1))
         | (Some (OtherError t), w1) \<Rightarrow> Some (Inl (OtherError t), w1))
      else Some (Inr False, w))"

definition upload_file_with_retry ::
  "env \<Rightarrow> path \<Rightarrow> string \<Rightarrow> key \<Rightarrow> nat \<Rightarrow> world \<Rightarrow> ((exn + bool) \<times> world) option"
where
  "upload_file_with_retry E localFilePath bucketName objectName retries w =
     upload_loop E localFilePath bucketName objectName retries 0 w"

subsection \<open>transfer\_object\<close>

text \<open>
  Lines 163 to 166 of the source, which both the "absent" and the "changed" branch of the
  probe fall through to: upload with retries, log when the retries are exhausted, and
  remove the staged file.
\<close>

definition upload_and_remove ::
  "env \<Rightarrow> path \<Rightarrow> string \<Rightarrow> key \<Rightarrow> nat \<Rightarrow> world \<Rightarrow> ((exn + unit) \<times> world) option"
where
  "upload_and_remove E tempFilePath s3Bucket objectName retries w =
     (case upload_file_with_retry E tempFilePath s3Bucket objectName retries w of
        None \<Rightarrow> None
      | Some (Inl e, w1) \<Rightarrow> Some (Inl e, w1)
      | Some (Inr uploadSuccess, w1) \<Rightarrow>
          (let w2 = (if \<not> uploadSuccess
                     then logger ERROR (''Failed to upload '' @ objectName
                                        @ ''. Exiting the script.'') w1
                     else w1)
           in case os_remove tempFilePath w2 of
                Inl e \<Rightarrow> Some (Inl e, w2)
              | Inr w3 \<Rightarrow> Some (Inr (), w3)))"

definition transfer_object ::
  "env \<Rightarrow> swift_object \<Rightarrow> path \<Rightarrow> string \<Rightarrow> string \<Rightarrow> nat \<Rightarrow> world
     \<Rightarrow> ((exn + unit) \<times> world) option"
where
  "transfer_object E object tempDirectory openStackContainer s3Bucket retries w =
     (let objectName = name object;
          tempFilePath = path_join tempDirectory objectName
      in case makedirs (dirname tempFilePath) w of
           Inl e \<Rightarrow> Some (Inl e, w)
         | Inr w1 \<Rightarrow>
      if endswith objectName ''/'' then
           (let w2 = emit (PutObject s3Bucket objectName) w1
            in case s3_put_object E s3Bucket objectName of
                 Some e \<Rightarrow> Some (Inl e, w2)
               | None \<Rightarrow>
                   Some (Inr (),
                     logger INFO (''Creating directory structure '' @ objectName @ '' in S3.'')
                       (w2\<lparr>s3_objects := (s3_objects w2)(objectName \<mapsto> [])\<rparr>)))
         else
           (let w2 = emit (GetObject openStackContainer objectName) w1
            in case swift_get_object E openStackContainer objectName of
                 Inl e \<Rightarrow> Some (Inl e, w2)
               | Inr objectContents \<Rightarrow>
                  (case write_file tempFilePath objectContents w2 of
                     Inl e \<Rightarrow> Some (Inl e, w2)
                   | Inr written \<Rightarrow>
                   (let w3 = logger DEBUG (''Downloaded '' @ objectName @ '' to '' @ tempFilePath)
                               written
                    in case calculate_md5 E w3 tempFilePath of
                         Inl e \<Rightarrow> Some (Inl e, w3)
                       | Inr localMD5 \<Rightarrow>
                           (let w4 = emit (HeadObject s3Bucket objectName) w3
                            in case s3_head_object E (s3_objects w3) s3Bucket objectName of
                                 Inr etag \<Rightarrow>
                                   (let s3MD5 = strip_quotes etag
                                    in if localMD5 = s3MD5 then
                                         (let w5 = logger INFO (objectName
                                                     @ '' is up to date in S3. Skipping upload.'') w4
                                          in case os_remove tempFilePath w5 of
                                               Inl e \<Rightarrow> Some (Inl e, w5)
                                             | Inr w6 \<Rightarrow> Some (Inr (), w6))
                                       else
                                         upload_and_remove E tempFilePath s3Bucket objectName retries
                                           (logger INFO (objectName
                                              @ '' exists but has changed. Overwriting ''
                                              @ objectName @ ''...'') w4))
                               | Inl (ClientError code text) \<Rightarrow>
                                   if code = ''404'' then
                                     upload_and_remove E tempFilePath s3Bucket objectName retries
                                       (logger INFO (objectName @ '' does not exist in S3. Uploading ''
                                          @ objectName @ ''...'') w4)
                                   else
                                     Some (Inl (ClientError code text),
                                       logger ERROR (''Failed to access object '' @ objectName
                                          @ '': '' @ text) w4)
                               | Inl (OtherError t) \<Rightarrow> Some (Inl (OtherError t), w4))))))"

subsection \<open>Setup and listings\<close>

definition ensure_bucket_exists :: "env \<Rightarrow> string \<Rightarrow> world \<Rightarrow> (exn + unit) \<times> world" where
  "ensure_bucket_exists E bucketName w =
     (let w1 = emit (HeadBucket bucketName) w
      in case s3_head_bucket E bucketName of
           None \<Rightarrow> (Inr (), w1)
         | Some (ClientError code text) \<Rightarrow>
             if code = ''404'' then
               (Inl (OtherError (''S3 bucket '' @ [CHR 0x27] @ bucketName @ [CHR 0x27]
                                  @ '' does not exist.'')),
                logger ERROR (''Bucket '' @ bucketName @ '' does not exist. Exiting the script'') w1)
             else
               (Inl (ClientError code text),
                logger ERROR (''Failed to access bucket '' @ bucketName @ '': '' @ text) w1)
         | Some (OtherError t) \<Rightarrow> (Inl (OtherError t), w1))"

partial_function (option) list_openstack_loop ::
  "env \<Rightarrow> string \<Rightarrow> swift_object list \<Rightarrow> string option \<Rightarrow> world
     \<Rightarrow> ((exn + swift_object list) \<times> world) option"
where
  "list_openstack_loop E containerName objects marker w =
     (let w1 = emit (GetContainer containerName marker) w
      in case swift_get_container E containerName marker of
           Inl e \<Rightarrow> Some (Inl e, w1)
         | Inr page \<Rightarrow>
             if page = [] then
               Some (Inr objects,
                 logger DEBUG (''Retrieved '' @ string_of_nat (length objects)
                    @ '' objects from container '' @ [CHR 0x27] @ containerName @ [CHR 0x27]
                    @ ''.'') w1)
             else
               list_openstack_loop E containerName (objects @ page) (Some (name (last page))) w1)"

definition list_openstack_objects ::
  "env \<Rightarrow> string \<Rightarrow> world \<Rightarrow> ((exn + swift_object list) \<times> world) option"
where
  "list_openstack_objects E containerName w = list_openstack_loop E containerName [] None w"

text \<open>
  \<^verbatim>\<open>if continuationToken:\<close> is false for \<^verbatim>\<open>None\<close> and for the empty string: the
  request then carries no token.
\<close>

partial_function (option) list_s3_loop ::
  "env \<Rightarrow> string \<Rightarrow> key list \<Rightarrow> string option \<Rightarrow> world \<Rightarrow> ((exn + key list) \<times> world) option"
where
  "list_s3_loop E bucketName objects continuationToken w =
     (let token = (if continuationToken = Some [] then None else continuationToken);
          w1 = emit (ListObjectsV2 bucketName token) w
      in case s3_list_objects_v2 E (s3_objects w) bucketName token of
           Inl e \<Rightarrow> Some (Inl e, w1)
         | Inr response \<Rightarrow>
             (let objects1 = (case Contents response of
                                Some contents \<Rightarrow> objects @ contents
                              | None \<Rightarrow> objects)
              in if IsTruncated response then
                   list_s3_loop E bucketName objects1 (NextContinuationToken response) w1
                 else
                   Some (Inr objects1,
                     logger DEBUG (''Retrieved '' @ string_of_nat (length objects1)
                        @ '' objects from S3 bucket '' @ [CHR 0x27] @ bucketName @ [CHR 0x27]
                        @ ''.'') w1)))"

definition list_s3_objects :: "env \<Rightarrow> string \<Rightarrow> world \<Rightarrow> ((exn + key list) \<times> world) option" where
  "list_s3_objects E bucketName w = list_s3_loop E bucketName [] None w"

subsection \<open>main\<close>

text \<open>
  The pool. \<^verbatim>\<open>executor.submit\<close> returns a future that \<open>main\<close> drops: what a task
  returns or raises is never read. Leaving the \<^verbatim>\<open>with\<close> block waits for every task.
  The tasks are run here one after the other in the order of submission, which is what a
  pool of one worker does; with more workers the tasks of different keys interleave.
\<close>

fun executor_submit ::
  "env \<Rightarrow> path \<Rightarrow> string \<Rightarrow> string \<Rightarrow> nat \<Rightarrow> swift_object list \<Rightarrow> world \<Rightarrow> world option"
where
  "executor_submit E tempDirectory openStackContainer s3Bucket retries [] w = Some w"
| "executor_submit E tempDirectory openStackContainer s3Bucket retries (obj # rest) w =
     (case transfer_object E obj tempDirectory openStackContainer s3Bucket retries w of
        None \<Rightarrow> None
      | Some (result, w1) \<Rightarrow>
          executor_submit E tempDirectory openStackContainer s3Bucket retries rest w1)"

text \<open>
  Creating the logger, the Swift connection and the S3 client is taken to succeed and
  leaves no mark on the world. \<^verbatim>\<open>TransferConfig\<close> refuses a bandwidth that is not
  positive and \<^verbatim>\<open>ThreadPoolExecutor\<close> a pool of no workers, both with a
  \<^verbatim>\<open>ValueError\<close>.
\<close>

definition main ::
  "env \<Rightarrow> string \<Rightarrow> string \<Rightarrow> int \<Rightarrow> string \<Rightarrow> int \<Rightarrow> world \<Rightarrow> ((exn + unit) \<times> world) option"
where
  "main E openStackContainer s3Bucket maxWorkers regionName bandwidthLimitMb w =
     (let w1 = logger INFO ''Starting OpenStack to S3 transfer...'' w;
          tempDirectory = ''/tmp/'' @ s3Bucket
      in case create_temp_directory tempDirectory w1 of
           Inl e \<Rightarrow> Some (Inl e, w1)
         | Inr w2 \<Rightarrow>
      (case ensure_bucket_exists E s3Bucket w2 of
           (Inl e, w3) \<Rightarrow> Some (Inl e, w3)
         | (Inr _, w3) \<Rightarrow>
           if bandwidthLimitMb * 1024 * 1024 \<le> 0 then Some (Inl (OtherError ''ValueError''), w3)
           else
             (case list_openstack_objects E openStackContainer w3 of
                None \<Rightarrow> None
              | Some (Inl e, w4) \<Rightarrow> Some (Inl e, w4)
              | Some (Inr openstack_objects, w4) \<Rightarrow>
                  (let retries = 3
                   in if openstack_objects = [] then
                        Some (Inr (), logger WARNING ''No objects found in OpenStack container.'' w4)
                      else if maxWorkers \<le> 0 then
                        Some (Inl (OtherError ''ValueError''), w4)
                      else
                        (case executor_submit E tempDirectory openStackContainer s3Bucket retries
                                openstack_objects w4 of
                           None \<Rightarrow> None
                         | Some w5 \<Rightarrow>
                          (case remove_temp_directory tempDirectory w5 of
                             Inl e \<Rightarrow> Some (Inl e, w5)
                           | Inr w6 \<Rightarrow>
                             (case list_s3_objects E s3Bucket w6 of
                                   None \<Rightarrow> None
                                 | Some (Inl e, w7) \<Rightarrow> Some (Inl e, w7)
                                 | Some (Inr s3_objs, w7) \<Rightarrow>
                                     (let w8 = logger INFO (''Total objects in OpenStack container ''
                                                 @ [CHR 0x27] @ openStackContainer @ [CHR 0x27] @ '': ''
                                                 @ string_of_nat (length openstack_objects)) w7;
                                          w9 = logger INFO (''Total objects in S3 bucket ''
                                                 @ [CHR 0x27] @ s3Bucket @ [CHR 0x27] @ '': ''
                                                 @ string_of_nat (length s3_objs)) w8;
                                          w10 = (if length openstack_objects = length s3_objs
                                                 then logger INFO
                                                   ''Object count matches between OpenStack container and S3 bucket.'' w9
                                                 else logger WARNING
                                                   ''Object count mismatch between OpenStack container and S3 bucket.'' w9)
                                      in Some (Inr (),
                                           logger INFO ''OpenStack to S3 transfer process completed.''
                                             w10)))))))))"

subsection \<open>Notions used by the properties\<close>

text \<open>
  The one failure of an upload that the retry loop counts and sleeps after: a
  \<^verbatim>\<open>ClientError\<close> (line 121 of the source catches this class only) whose code is not
  \<^verbatim>\<open>ExpiredToken\<close> (line 122 tests exactly this code). An exception of any other
  class leaves the loop at once.
\<close>

definition counted_client_error :: "exn option \<Rightarrow> bool" where
  "counted_client_error r \<longleftrightarrow>
     (case r of Some (ClientError code text) \<Rightarrow> code \<noteq> ''ExpiredToken'' | _ \<Rightarrow> False)"

text \<open>
  A path is written plainly when its components, taken apart at the slashes after a
  leading one, are neither empty nor \<^verbatim>\<open>.\<close> nor \<^verbatim>\<open>..\<close>.
\<close>

fun split_path :: "path \<Rightarrow> string list" where
  "split_path [] = [[]]"
| "split_path (c # cs) =
     (if c = CHR ''/'' then [] # split_path cs
      else (c # hd (split_path cs)) # tl (split_path cs))"

definition plain :: "path \<Rightarrow> bool" where
  "plain p \<longleftrightarrow>
     (\<forall>component \<in> set (split_path (if startswith p ''/'' then tl p else p)).
        component \<noteq> [] \<and> component \<noteq> ''.'' \<and> component \<noteq> ''..'')"

text \<open>
  Staging succeeds for a path in a world when lines 134 and 142 of the source raise
  nothing there: the directory of the path can be made, and the path can be opened for
  writing in it.
\<close>

definition stages :: "path \<Rightarrow> world \<Rightarrow> bool" where
  "stages p w \<longleftrightarrow>
     (case makedirs (dirname p) w of
        Inl e \<Rightarrow> False
      | Inr w1 \<Rightarrow> (case write_file p [] w1 of Inl e \<Rightarrow> False | Inr w2 \<Rightarrow> True))"

definition n_sleeps :: "world \<Rightarrow> nat" where
  "n_sleeps w = length (filter (\<lambda>ev. case ev of Sleep _ \<Rightarrow> True | _ \<Rightarrow> False) (trace w))"

definition n_refreshes :: "world \<Rightarrow> nat" where
  "n_refreshes w = length (filter (\<lambda>ev. ev = RefreshCredentials) (trace w))"

text \<open>
  The destination answers a metadata probe from what it holds: "not found" for a key it
  does not hold, and otherwise an ETag that is, between its quotes, the digest of the
  bytes it holds.
\<close>

definition reports_held_digest :: "env \<Rightarrow> string \<Rightarrow> bool" where
  "reports_held_digest E bucket \<longleftrightarrow>
     (\<forall>held k. case held k of
        None \<Rightarrow> (\<exists>text. s3_head_object E held bucket k = Inl (ClientError ''404'' text))
      | Some content \<Rightarrow>
          (\<exists>etag. s3_head_object E held bucket k = Inr etag
                 \<and> strip_quotes etag = md5_hexdigest E content))"

text \<open>A key is in sync when the destination holds bytes with the digest of the source's.\<close>

definition in_sync :: "env \<Rightarrow> string \<Rightarrow> key \<Rightarrow> world \<Rightarrow> bool" where
  "in_sync E container k w \<longleftrightarrow>
     (case (swift_get_object E container k, s3_objects w k) of
        (Inr content, Some held) \<Rightarrow> md5_hexdigest E held = md5_hexdigest E content
      | _ \<Rightarrow> False)"

subsection \<open>Example stores\<close>

text \<open>
  A small pair of stores to run the script on. The source lists the given objects on its
  first page; reading \<^verbatim>\<open>missing.txt\<close> fails. The destination holds what was uploaded,
  answers probes from it (except for \<^verbatim>\<open>broken.txt\<close>, whose probe fails with code 500),
  and answers the uploads as the given script says. The digest is a stand-in that keeps
  the bytes between two brackets.
\<close>

definition toy_digest :: "bytes \<Rightarrow> string" where
  "toy_digest content = ''<'' @ content @ ''>''"

definition example_env :: "swift_object list \<Rightarrow> (nat \<Rightarrow> exn option) \<Rightarrow> env" where
  "example_env listing script =
     \<lparr>swift_get_container = (\<lambda>container marker. if marker = None then Inr listing else Inr []),
      swift_get_object = (\<lambda>container k.
         if k = ''missing.txt'' then Inl (OtherError ''ClientException'')
         else Inr (''bytes of '' @ k)),
      s3_head_bucket = (\<lambda>bucket. None),
      s3_head_object = (\<lambda>held bucket k.
         if k = ''broken.txt'' then Inl (ClientError ''500'' ''Internal Server Error'')
         else case held k of
                None \<Rightarrow> Inl (ClientError ''404'' ''Not Found'')
              | Some content \<Rightarrow> Inr ([CHR 0x22] @ toy_digest content @ [CHR 0x22])),
      s3_put_object = (\<lambda>bucket k. None),
      s3_upload_file = script,
      s3_list_objects_v2 = (\<lambda>held bucket token.
         Inr \<lparr>Contents = None, IsTruncated = False, NextContinuationToken = None\<rparr>),
      md5_hexdigest = toy_digest\<rparr>"

definition always_succeeds :: "nat \<Rightarrow> exn option" where
  "always_succeeds i = None"

definition always_fails :: "nat \<Rightarrow> exn option" where
  "always_fails i = Some (ClientError ''SlowDown'' ''Please reduce your request rate.'')"

text \<open>
  Uploads that fail with an exception that is not a \<^verbatim>\<open>ClientError\<close>, as
  \<^verbatim>\<open>boto3.exceptions.S3UploadFailedError\<close> is.
\<close>

definition always_raises :: "nat \<Rightarrow> exn option" where
  "always_raises i = Some (OtherError ''S3UploadFailedError'')"

definition raises_twice :: "nat \<Rightarrow> exn option" where
  "raises_twice i = (if i < 2 then always_raises i else None)"

definition fails_twice :: "nat \<Rightarrow> exn option" where
  "fails_twice i = (if i < 2 then always_fails i else None)"

definition expires_then_fails :: "nat \<Rightarrow> exn option" where
  "expires_then_fails i =
     (if i = 0 \<or> i = 2 \<or> i = 3 then Some (ClientError ''ExpiredToken'' ''The provided token has expired.'')
      else if i = 1 then always_fails i
      else None)"

definition empty_world :: world where
  "empty_world = \<lparr>files = Map.empty, dirs = {}, s3_objects = Map.empty, log = [], trace = []\<rparr>"

definition staged_world :: world where
  "staged_world = empty_world\<lparr>files := [''/tmp/bkt/a.txt'' \<mapsto> ''bytes of a.txt'']\<rparr>"


definition obj :: "key \<Rightarrow> swift_object" where
  "obj k = \<lparr>name = k, bytes = 0\<rparr>"

text \<open>
  The world of \<open>transfer_object\<close> at the point where the answer of the metadata probe
  is looked at, when staging has succeeded: the directory is made, the object is
  downloaded and staged, and the probe has been sent.
\<close>

definition staged_and_probed ::
  "swift_object \<Rightarrow> path \<Rightarrow> string \<Rightarrow> string \<Rightarrow> bytes \<Rightarrow> world \<Rightarrow> world"
where
  "staged_and_probed object tempDirectory openStackContainer s3Bucket content w =
     emit (HeadObject s3Bucket (name object))
       ((emit (GetObject openStackContainer (name object))
           (w\<lparr>dirs := dirs w
                     \<union> set (dir_chain [] (dirname (path_join tempDirectory (name object))))\<rparr>))
        \<lparr>files := (files w)(path_join tempDirectory (name object) \<mapsto> content)\<rparr>)"

text \<open>
  The account of one run of the retry loop that starts at attempt \<open>a\<close> in world \<open>w\<close>
  and ends with result \<open>r\<close> in world \<open>w'\<close>: it slept \<open>s\<close> times (once after each
  counted failure) and refreshed the credentials \<open>f\<close> times (once after each expiry).
\<close>

definition accounted ::
  "key \<Rightarrow> nat \<Rightarrow> nat \<Rightarrow> world \<Rightarrow> exn + bool \<Rightarrow> world \<Rightarrow> nat \<Rightarrow> nat \<Rightarrow> bool"
where
  "accounted k n a w r w' s f \<longleftrightarrow>
     n_sleeps w' = n_sleeps w + s \<and> n_refreshes w' = n_refreshes w + f
     \<and> n_uploads w' = n_uploads w + s + f + (if r = Inr False then 0 else 1)
     \<and> a + s \<le> n \<and> (r = Inr False \<longleftrightarrow> a + s = n)
     \<and> (r = Inr True \<longrightarrow>
          last (log w') = (INFO, k @ '' uploaded successfully on attempt ''
                                   @ string_of_nat (a + s + 1) @ ''.''))"



section \<open>Facts about the model\<close>

subsection \<open>Fields of the world\<close>

lemma emit_fields [simp]:
  "files (emit ev w) = files w" "dirs (emit ev w) = dirs w"
  "s3_objects (emit ev w) = s3_objects w" "log (emit ev w) = log w"
  "trace (emit ev w) = trace w @ [ev]"
  by (simp_all add: emit_def)

lemma logger_fields [simp]:
  "files (logger lvl msg w) = files w" "dirs (logger lvl msg w) = dirs w"
  "s3_objects (logger lvl msg w) = s3_objects w"
  "log (logger lvl msg w) = (if lvl = DEBUG then log w else log w @ [(lvl, msg)])"
  "trace (logger lvl msg w) = trace w"
  by (simp_all add: logger_def)

lemma remove_file_fields [simp]:
  "files (remove_file p w) = (files w)(p := None)" "dirs (remove_file p w) = dirs w"
  "s3_objects (remove_file p w) = s3_objects w" "log (remove_file p w) = log w"
  "trace (remove_file p w) = trace w"
  by (simp_all add: remove_file_def)

lemma dir_chain_whole: "acc @ cs \<in> set (dir_chain acc cs)"
  by (induction cs arbitrary: acc) (simp_all, metis append.assoc append_Cons append_Nil)

lemma dirname_nonempty: "dirname p \<noteq> [] \<Longrightarrow> p \<noteq> []"
  by (auto simp add: dirname_def)


lemma os_remove_file:
  assumes "files w p = Some content" and "p \<notin> dirs w"
  shows "os_remove p w = Inr (remove_file p w)"
  using assms by (simp add: os_remove_def)

lemma makedirs_failure:
  assumes "makedirs p w = Inl e"
  shows "p = [] \<or> (\<exists>d \<in> set (dir_chain [] p). files w d \<noteq> None)"
  using assms dir_chain_whole [of "[]" p] by (auto simp add: makedirs_def split: if_splits)

text \<open>
  What \<open>stages\<close> amounts to: the directory of the path has a name, no regular file is
  at it or above it, and the path does not name a directory.
\<close>

lemma stages_iff:
  "stages p w \<longleftrightarrow>
     dirname p \<noteq> [] \<and> (\<forall>d \<in> set (dir_chain [] (dirname p)). files w d = None)
     \<and> p \<notin> dirs w \<and> p \<notin> set (dir_chain [] (dirname p))
     \<and> basename p \<noteq> [] \<and> basename p \<noteq> ''.'' \<and> basename p \<noteq> ''..''"
  using dir_chain_whole [of "[]" "dirname p"]
  by (auto simp add: stages_def makedirs_def write_file_def dirname_nonempty
        split: sum.splits if_splits)

lemma stagesD:
  assumes "stages p w"
  shows "makedirs (dirname p) w = Inr (w\<lparr>dirs := dirs w \<union> set (dir_chain [] (dirname p))\<rparr>)"
    and "write_file p content (emit ev (w\<lparr>dirs := dirs w \<union> set (dir_chain [] (dirname p))\<rparr>))
           = Inr ((emit ev (w\<lparr>dirs := dirs w \<union> set (dir_chain [] (dirname p))\<rparr>))
                    \<lparr>files := (files w)(p \<mapsto> content)\<rparr>)"
  using assms dir_chain_whole [of "[]" "dirname p"]
  by (auto simp add: stages_def makedirs_def write_file_def emit_def
        split: sum.splits if_splits)

lemma refresh_credentials_fields [simp]:
  "files (refresh_credentials w) = files w" "dirs (refresh_credentials w) = dirs w"
  "s3_objects (refresh_credentials w) = s3_objects w" "log (refresh_credentials w) = log w"
  "trace (refresh_credentials w) = trace w @ [RefreshCredentials]"
  by (simp_all add: refresh_credentials_def)

lemma n_uploads_trace: "trace w' = trace w \<Longrightarrow> n_uploads w' = n_uploads w"
  by (simp add: n_uploads_def)

lemma n_uploads_append:
  "trace w' = trace w @ evs \<Longrightarrow>
   n_uploads w' = n_uploads w
      + length (filter (\<lambda>ev. case ev of UploadFile _ _ _ \<Rightarrow> True | _ \<Rightarrow> False) evs)"
  by (simp add: n_uploads_def)

lemma n_uploads_steps [simp]:
  "n_uploads (logger lvl msg w) = n_uploads w"
  "n_uploads (emit (UploadFile p b k) w) = Suc (n_uploads w)"
  "n_uploads (emit (Sleep d) w) = n_uploads w"
  "n_uploads (refresh_credentials w) = n_uploads w"
  "n_uploads (remove_file q w) = n_uploads w"
  by (simp_all add: n_uploads_def)

lemma n_sleeps_steps [simp]:
  "n_sleeps (logger lvl msg w) = n_sleeps w"
  "n_sleeps (emit (UploadFile p b k) w) = n_sleeps w"
  "n_sleeps (emit (Sleep d) w) = Suc (n_sleeps w)"
  "n_sleeps (refresh_credentials w) = n_sleeps w"
  by (simp_all add: n_sleeps_def)

lemma n_refreshes_steps [simp]:
  "n_refreshes (logger lvl msg w) = n_refreshes w"
  "n_refreshes (emit (UploadFile p b k) w) = n_refreshes w"
  "n_refreshes (emit (Sleep d) w) = n_refreshes w"
  "n_refreshes (refresh_credentials w) = Suc (n_refreshes w)"
  by (simp_all add: n_refreshes_def)

subsection \<open>One upload call and one turn of the retry loop\<close>

lemma counted_client_errorD:
  assumes "counted_client_error r"
  obtains code msg where "r = Some (ClientError code msg)" and "code \<noteq> ''ExpiredToken''"
proof (cases r)
  case None
  with assms show ?thesis by (simp add: counted_client_error_def)
next
  case (Some e)
  with assms that show ?thesis by (cases e) (simp_all add: counted_client_error_def)
qed

lemma always_counted:
  assumes "\<forall>i. \<exists>code msg. s3_upload_file E i = Some (ClientError code msg)
                        \<and> code \<noteq> ''ExpiredToken''"
  shows "\<forall>i. counted_client_error (s3_upload_file E i)"
proof
  fix i
  from assms obtain code msg where
    "s3_upload_file E i = Some (ClientError code msg)" "code \<noteq> ''ExpiredToken''"
    by blast
  then show "counted_client_error (s3_upload_file E i)"
    by (simp add: counted_client_error_def)
qed

lemma upload_file_failure:
  assumes "files w p = Some c" and "s3_upload_file E (n_uploads w) = Some e"
  shows "upload_file E p b k w = (Some e, emit (UploadFile p b k) w)"
  using assms by (simp add: upload_file_def)

lemma upload_file_success:
  assumes "files w p = Some c" and "s3_upload_file E (n_uploads w) = None"
  shows "upload_file E p b k w =
           (None, (emit (UploadFile p b k) w)\<lparr>s3_objects := (s3_objects w)(k \<mapsto> c)\<rparr>)"
  using assms by (simp add: upload_file_def)

lemma upload_loop_exhausted: "\<not> a < n \<Longrightarrow> upload_loop E p b k n a w = Some (Inr False, w)"
  by (subst upload_loop.simps) simp

lemma upload_loop_retry:
  assumes "a < n" and "files w p = Some c"
    and "s3_upload_file E (n_uploads w) = Some (ClientError code msg)"
    and "code \<noteq> ''ExpiredToken''"
  shows "upload_loop E p b k n a w =
           upload_loop E p b k n (a + 1)
             (emit (Sleep (2 ^ (a + 1)))
                (logger ERROR (''Failed to upload '' @ k @ '' (attempt ''
                   @ string_of_nat (a + 1 + 1) @ ''/'' @ string_of_nat n @ ''): '' @ msg)
                   (emit (UploadFile p b k) w)))"
  using assms by (subst upload_loop.simps) (simp add: upload_file_failure)

lemma upload_loop_expired:
  assumes "a < n" and "files w p = Some c"
    and "s3_upload_file E (n_uploads w) = Some (ClientError ''ExpiredToken'' msg)"
  shows "upload_loop E p b k n a w =
           upload_loop E p b k n a
             (refresh_credentials
                (logger WARNING ''AWS session expired. Requesting new credentials.''
                   (emit (UploadFile p b k) w)))"
  using assms by (subst upload_loop.simps) (simp add: upload_file_failure)

lemma upload_loop_success:
  assumes "a < n" and "files w p = Some c" and "s3_upload_file E (n_uploads w) = None"
  shows "upload_loop E p b k n a w =
           Some (Inr True,
             logger INFO (k @ '' uploaded successfully on attempt ''
                          @ string_of_nat (a + 1) @ ''.'')
               ((emit (UploadFile p b k) w)\<lparr>s3_objects := (s3_objects w)(k \<mapsto> c)\<rparr>))"
  using assms by (subst upload_loop.simps) (simp add: upload_file_success)

lemma retry_turn:
  assumes "a < n" and "files w p = Some c"
    and "counted_client_error (s3_upload_file E (n_uploads w))"
  obtains w1 where "upload_loop E p b k n a w = upload_loop E p b k n (Suc a) w1"
    and "trace w1 = trace w @ [UploadFile p b k, Sleep (2 ^ Suc a)]"
    and "files w1 = files w" and "s3_objects w1 = s3_objects w" and "dirs w1 = dirs w"
    and "n_uploads w1 = Suc (n_uploads w)"
    and "\<exists>msg. log w1 = log w @ [(ERROR, msg)]"
proof -
  from assms(3) obtain code msg where
    r: "s3_upload_file E (n_uploads w) = Some (ClientError code msg)" "code \<noteq> ''ExpiredToken''"
    by (rule counted_client_errorD)
  let ?w1 = "emit (Sleep (2 ^ (a + 1)))
                (logger ERROR (''Failed to upload '' @ k @ '' (attempt ''
                   @ string_of_nat (a + 1 + 1) @ ''/'' @ string_of_nat n @ ''): '' @ msg)
                   (emit (UploadFile p b k) w))"
  have "upload_loop E p b k n a w = upload_loop E p b k n (Suc a) ?w1"
    using upload_loop_retry [OF assms(1,2) r] by simp
  moreover have "trace ?w1 = trace w @ [UploadFile p b k, Sleep (2 ^ Suc a)]" by simp
  moreover have "files ?w1 = files w" "s3_objects ?w1 = s3_objects w" "dirs ?w1 = dirs w"
    "n_uploads ?w1 = Suc (n_uploads w)" by simp_all
  moreover have "\<exists>m. log ?w1 = log w @ [(ERROR, m)]" by simp
  ultimately show ?thesis by (rule that)
qed

text \<open>
  An upload that fails on every call with a counted error: the loop takes one turn for
  each attempt of the budget, sleeps after each, and returns \<open>False\<close>.
\<close>

lemma upload_loop_always_failing:
  assumes "\<forall>i. counted_client_error (s3_upload_file E i)" and "files w p = Some c"
  shows "\<exists>w'. upload_loop E p b k n a w = Some (Inr False, w')
           \<and> trace w' = trace w @ concat (map (\<lambda>i. [UploadFile p b k, Sleep (2 ^ Suc i)]) [a..<n])
           \<and> files w' = files w \<and> s3_objects w' = s3_objects w \<and> dirs w' = dirs w
           \<and> n_uploads w' = n_uploads w + (n - a)
           \<and> (\<exists>msgs. log w' = log w @ map (Pair ERROR) msgs)"
  using assms(2)
proof (induction "n - a" arbitrary: a w)
  case 0
  then have "upload_loop E p b k n a w = Some (Inr False, w)"
    by (simp add: upload_loop_exhausted)
  moreover have "log w = log w @ map (Pair ERROR) []" by simp
  ultimately show ?case using 0 by auto
next
  case (Suc d)
  then have lt: "a < n" by simp
  from assms(1) have "counted_client_error (s3_upload_file E (n_uploads w))" by simp
  with lt Suc.prems obtain w1 where
    step: "upload_loop E p b k n a w = upload_loop E p b k n (Suc a) w1"
    and w1: "trace w1 = trace w @ [UploadFile p b k, Sleep (2 ^ Suc a)]"
      "files w1 = files w" "s3_objects w1 = s3_objects w" "dirs w1 = dirs w"
      "n_uploads w1 = Suc (n_uploads w)"
    and l1: "\<exists>msg. log w1 = log w @ [(ERROR, msg)]"
    by (rule retry_turn [of a n w p c E b k]) blast
  have "d = n - Suc a" using Suc.hyps(2) by simp
  moreover have "files w1 p = Some c" using Suc.prems w1 by simp
  ultimately obtain w' msgs where
    w': "upload_loop E p b k n (Suc a) w1 = Some (Inr False, w')"
        "trace w' = trace w1 @ concat (map (\<lambda>i. [UploadFile p b k, Sleep (2 ^ Suc i)]) [Suc a..<n])"
        "files w' = files w1" "s3_objects w' = s3_objects w1" "dirs w' = dirs w1"
        "n_uploads w' = n_uploads w1 + (n - Suc a)"
        "log w' = log w1 @ map (Pair ERROR) msgs"
    using Suc.hyps(1) [of "Suc a" w1] by blast
  from l1 obtain msg where "log w1 = log w @ [(ERROR, msg)]" by blast
  with w' have "log w' = log w @ map (Pair ERROR) (msg # msgs)" by simp
  then have "\<exists>ms. log w' = log w @ map (Pair ERROR) ms" by blast
  then show ?case
    using w' w1 lt by (simp add: step upt_conv_Cons)
qed

section \<open>The retrying uploader\<close>

text \<open>
  Claim C5 says that with a budget of 3 attempts and an upload that fails, not by
  expiry, on its first two calls and succeeds on the third, the uploader returns success
  after three attempts and two sleeps. The loop catches \<^verbatim>\<open>ClientError\<close> only. Here
  the first two calls fail with an exception of another class: the uploader makes one
  upload call and the exception leaves it; it neither sleeps nor tries again.
\<close>

theorem other_failure_is_not_retried:
  "map_option (\<lambda>(r, w'). (r, trace w'))
     (upload_file_with_retry (example_env [] raises_twice) ''/tmp/bkt/a.txt'' ''bkt'' ''a.txt'' 3
        staged_world)
   = Some (Inl (OtherError ''S3UploadFailedError''),
           [UploadFile ''/tmp/bkt/a.txt'' ''bkt'' ''a.txt''])"
  unfolding upload_file_with_retry_def
  by (subst upload_loop.simps)
     (simp add: upload_file_def staged_world_def empty_world_def example_env_def raises_twice_def
        always_raises_def n_uploads_def emit_def)

text \<open>
  Claim C5 as amended. With a budget of 3 attempts and an upload that fails with a
  \<^verbatim>\<open>ClientError\<close> whose code is not \<^verbatim>\<open>ExpiredToken\<close> on its first two calls and
  succeeds on the third, the retrying uploader returns \<open>True\<close> after exactly three
  upload calls, and sleeps exactly twice in between, first 2 and then 4 time units. The
  calls and sleeps are read off the trace, in the order they happen; the destination holds
  the file's bytes afterwards.
\<close>

theorem retry_fails_twice_then_succeeds:
  assumes "files w p = Some content"
    and "\<exists>code msg. s3_upload_file E (n_uploads w) = Some (ClientError code msg)
                    \<and> code \<noteq> ''ExpiredToken''"
    and "\<exists>code msg. s3_upload_file E (n_uploads w + 1) = Some (ClientError code msg)
                    \<and> code \<noteq> ''ExpiredToken''"
    and "s3_upload_file E (n_uploads w + 2) = None"
  shows "\<exists>w'. upload_file_with_retry E p b k 3 w = Some (Inr True, w')
           \<and> trace w' = trace w @ [UploadFile p b k, Sleep 2, UploadFile p b k, Sleep 4,
                                    UploadFile p b k]
           \<and> s3_objects w' = (s3_objects w)(k \<mapsto> content)"
proof -
  have c1: "counted_client_error (s3_upload_file E (n_uploads w))"
    using assms(2) by (auto simp add: counted_client_error_def)
  have c2: "counted_client_error (s3_upload_file E (n_uploads w + 1))"
    using assms(3) by (auto simp add: counted_client_error_def)
  obtain w1 where s1: "upload_loop E p b k 3 0 w = upload_loop E p b k 3 (Suc 0) w1"
    and w1: "trace w1 = trace w @ [UploadFile p b k, Sleep (2 ^ Suc 0)]"
      "files w1 = files w" "s3_objects w1 = s3_objects w" "n_uploads w1 = Suc (n_uploads w)"
    using retry_turn [of 0 3 w p content E b k] assms(1) c1 by auto
  have "counted_client_error (s3_upload_file E (n_uploads w1))"
    using c2 w1 by simp
  then obtain w2 where s2: "upload_loop E p b k 3 (Suc 0) w1 = upload_loop E p b k 3 (Suc (Suc 0)) w2"
    and w2: "trace w2 = trace w1 @ [UploadFile p b k, Sleep (2 ^ Suc (Suc 0))]"
      "files w2 = files w1" "s3_objects w2 = s3_objects w1" "n_uploads w2 = Suc (n_uploads w1)"
    using retry_turn [of "Suc 0" 3 w1 p content E b k] assms(1) w1 by auto
  have "s3_upload_file E (n_uploads w2) = None"
    using assms(4) w1 w2 by simp
  then have s3: "upload_loop E p b k 3 (Suc (Suc 0)) w2 =
      Some (Inr True,
        logger INFO (k @ '' uploaded successfully on attempt ''
                     @ string_of_nat (Suc (Suc 0) + 1) @ ''.'')
          ((emit (UploadFile p b k) w2)\<lparr>s3_objects := (s3_objects w2)(k \<mapsto> content)\<rparr>))"
    using upload_loop_success [of "Suc (Suc 0)" 3 w2 p content E b k] assms(1) w1 w2 by simp
  show ?thesis
    unfolding upload_file_with_retry_def s1 s2 s3 using w1 w2 by simp
qed

theorem retry_fails_twice_then_succeeds_witness:
  "\<exists>w'. upload_file_with_retry (example_env [] fails_twice) ''/tmp/bkt/a.txt'' ''bkt'' ''a.txt'' 3
           staged_world = Some (Inr True, w')
       \<and> trace w' = [UploadFile ''/tmp/bkt/a.txt'' ''bkt'' ''a.txt'', Sleep 2,
                      UploadFile ''/tmp/bkt/a.txt'' ''bkt'' ''a.txt'', Sleep 4,
                      UploadFile ''/tmp/bkt/a.txt'' ''bkt'' ''a.txt'']
       \<and> s3_objects w' = [''a.txt'' \<mapsto> ''bytes of a.txt'']"
proof -
  let ?E = "example_env [] fails_twice"
  have w: "files staged_world ''/tmp/bkt/a.txt'' = Some ''bytes of a.txt''"
    "n_uploads staged_world = 0" "trace staged_world = []" "s3_objects staged_world = Map.empty"
    by (simp_all add: staged_world_def empty_world_def n_uploads_def)
  have u: "s3_upload_file ?E = fails_twice"
    by (simp add: example_env_def)
  have f: "\<exists>code msg. s3_upload_file ?E (n_uploads staged_world) = Some (ClientError code msg)
                      \<and> code \<noteq> ''ExpiredToken''"
    "\<exists>code msg. s3_upload_file ?E (n_uploads staged_world + 1) = Some (ClientError code msg)
                      \<and> code \<noteq> ''ExpiredToken''"
    "s3_upload_file ?E (n_uploads staged_world + 2) = None"
    by (simp_all add: w u fails_twice_def always_fails_def)
  show ?thesis
    using retry_fails_twice_then_succeeds [OF w(1) f, of "''bkt''" "''a.txt''"]
    by (simp add: w)
qed

subsection \<open>The branches of transfer\_object\<close>

lemma foldl_append_chunks:
  "0 < n \<Longrightarrow> foldl (\<lambda>hashMD5 chunk. hashMD5 @ chunk) acc (chunks n xs) = acc @ xs"
proof (induction n xs arbitrary: acc rule: chunks.induct)
  case (1 n xs)
  show ?case
  proof (cases "n = 0 \<or> xs = []")
    case True
    with "1.prems" show ?thesis by (subst chunks.simps) simp
  next
    case False
    with "1.prems" have
      "foldl (\<lambda>hashMD5 chunk. hashMD5 @ chunk) (acc @ take n xs) (chunks n (drop n xs))
         = (acc @ take n xs) @ drop n xs"
      using "1.IH" [of "acc @ take n xs"] by blast
    with False show ?thesis by (subst chunks.simps) simp
  qed
qed

lemma calculate_md5_staged:
  "files w p = Some content \<Longrightarrow> calculate_md5 E w p = Inr (md5_hexdigest E content)"
  by (simp add: calculate_md5_def foldl_append_chunks)

lemma staged_and_probed_fields [simp]:
  "files (staged_and_probed object td c b content w)
     = (files w)(path_join td (name object) \<mapsto> content)"
  "s3_objects (staged_and_probed object td c b content w) = s3_objects w"
  "log (staged_and_probed object td c b content w) = log w"
  "trace (staged_and_probed object td c b content w)
     = trace w @ [GetObject c (name object), HeadObject b (name object)]"
  "n_uploads (staged_and_probed object td c b content w) = n_uploads w"
  "dirs (staged_and_probed object td c b content w)
     = dirs w \<union> set (dir_chain [] (dirname (path_join td (name object))))"
  by (simp_all add: staged_and_probed_def n_uploads_def emit_def)




lemma transfer_object_not_writable:
  assumes "\<not> endswith (name object) ''/''" and "swift_get_object E c (name object) = Inr content"
    and "makedirs (dirname (path_join td (name object))) w = Inr w1"
    and "write_file (path_join td (name object)) content (emit (GetObject c (name object)) w1)
           = Inl e"
  shows "transfer_object E object td c b n w = Some (Inl e, emit (GetObject c (name object)) w1)"
  using assms by (simp add: transfer_object_def Let_def)

text \<open>
  A regular object that is read from the source and staged: the worker is at the probe,
  and what it does next is decided by the answer.
\<close>

lemma transfer_object_staged:
  assumes "\<not> endswith (name object) ''/''" and "swift_get_object E c (name object) = Inr content"
    and "stages (path_join td (name object)) w"
  shows "transfer_object E object td c b n w =
           (let tempFilePath = path_join td (name object);
                w4 = staged_and_probed object td c b content w
            in case s3_head_object E (s3_objects w) b (name object) of
                 Inr etag \<Rightarrow>
                   if md5_hexdigest E content = strip_quotes etag then
                     Some (Inr (),
                       remove_file tempFilePath
                         (logger INFO (name object @ '' is up to date in S3. Skipping upload.'') w4))
                   else
                     upload_and_remove E tempFilePath b (name object) n
                       (logger INFO (name object @ '' exists but has changed. Overwriting ''
                                     @ name object @ ''...'') w4)
               | Inl (ClientError code text) \<Rightarrow>
                   if code = ''404'' then
                     upload_and_remove E tempFilePath b (name object) n
                       (logger INFO (name object @ '' does not exist in S3. Uploading ''
                                     @ name object @ ''...'') w4)
                   else
                     Some (Inl (ClientError code text),
                       logger ERROR (''Failed to access object '' @ name object @ '': '' @ text) w4)
               | Inl (OtherError t) \<Rightarrow> Some (Inl (OtherError t), w4))"
proof -
  let ?p = "path_join td (name object)"
  let ?w1 = "w\<lparr>dirs := dirs w \<union> set (dir_chain [] (dirname ?p))\<rparr>"
  let ?w2 = "emit (GetObject c (name object)) ?w1"
  let ?w3 = "?w2\<lparr>files := (files w)(?p \<mapsto> content)\<rparr>"
  note st = stagesD(1) [OF assms(3)]
    stagesD(2) [OF assms(3), where content = content and ev = "GetObject c (name object)"]
  have md5: "calculate_md5 E ?w3 ?p = Inr (md5_hexdigest E content)"
    by (rule calculate_md5_staged) simp
  have w4: "emit (HeadObject b (name object)) ?w3 = staged_and_probed object td c b content w"
    by (simp add: staged_and_probed_def)
  have s3: "s3_objects ?w3 = s3_objects w" by simp
  have dbg: "logger DEBUG m ?w3 = ?w3" for m by (simp add: logger_def)
  have "?p \<notin> dirs (staged_and_probed object td c b content w)"
    using assms(3) by (simp add: stages_iff)
  then have rm: "os_remove ?p (logger INFO m (staged_and_probed object td c b content w))
                   = Inr (remove_file ?p (logger INFO m (staged_and_probed object td c b content w)))"
    for m
    by (intro os_remove_file [of _ _ content]) simp_all
  show ?thesis
    using assms(1,2)
    by (simp add: transfer_object_def Let_def st dbg md5 w4 rm split: sum.splits exn.splits)
qed




lemma transfer_object_probe_failure:
  assumes "\<not> endswith (name object) ''/''" and "swift_get_object E c (name object) = Inr content"
    and "stages (path_join td (name object)) w"
    and "s3_head_object E (s3_objects w) b (name object) = Inl (ClientError code msg)"
    and "code \<noteq> ''404''"
  shows "transfer_object E object td c b n w =
           Some (Inl (ClientError code msg),
             logger ERROR (''Failed to access object '' @ name object @ '': '' @ msg)
               (staged_and_probed object td c b content w))"
  using assms(4,5) by (simp add: transfer_object_staged [OF assms(1,2,3)] Let_def)


lemma upload_and_remove_uploaded:
  assumes "upload_file_with_retry E p b k n w = Some (Inr True, w')"
    and "files w' p = Some content" and "p \<notin> dirs w'"
  shows "upload_and_remove E p b k n w = Some (Inr (), remove_file p w')"
  using assms by (simp add: upload_and_remove_def os_remove_def)

text \<open>
  Claim C10 says that the uploader sleeps after every failed attempt that is not an
  expiry, and that an always-failing upload gives three sleeps before failure is
  returned. An attempt that fails with an exception other than a \<^verbatim>\<open>ClientError\<close> is
  followed by no sleep: the exception leaves the uploader after the one upload call,
  and no result is returned.
\<close>

theorem other_failure_is_followed_by_no_sleep:
  "map_option (\<lambda>(r, w'). (r, n_uploads w', n_sleeps w'))
     (upload_file_with_retry (example_env [] always_raises) ''/tmp/bkt/a.txt'' ''bkt'' ''a.txt'' 3
        staged_world)
   = Some (Inl (OtherError ''S3UploadFailedError''), 1, 0)"
  unfolding upload_file_with_retry_def
  by (subst upload_loop.simps)
     (simp add: upload_file_def staged_world_def empty_world_def example_env_def
        always_raises_def n_uploads_def n_sleeps_def emit_def)

text \<open>
  Claim C10 as amended. The retrying uploader sleeps after every attempt that fails with
  a \<^verbatim>\<open>ClientError\<close> whose code is not \<^verbatim>\<open>ExpiredToken\<close>, the last one included: with an
  upload that always fails so, a budget of \<open>n\<close> attempts gives \<open>n\<close> upload calls, each
  followed by a sleep of 2, 4, 8, ... time units, and then \<open>False\<close>. With a budget of 3
  the uploader sleeps 2, 4 and 8: the sleep of 8 comes after the third and last upload
  call, when no attempt is left.
\<close>

theorem sleeps_after_every_failed_attempt:
  assumes "\<forall>i. \<exists>code msg. s3_upload_file E i = Some (ClientError code msg)
                        \<and> code \<noteq> ''ExpiredToken''"
    and "files w p = Some content"
  shows "\<exists>w'. upload_file_with_retry E p b k n w = Some (Inr False, w')
           \<and> trace w' = trace w @ concat (map (\<lambda>i. [UploadFile p b k, Sleep (2 ^ Suc i)]) [0..<n])
           \<and> (n = 3 \<longrightarrow> trace w' = trace w @ [UploadFile p b k, Sleep 2, UploadFile p b k, Sleep 4,
                                                UploadFile p b k, Sleep 8])"
proof -
  from assms(1) have "\<forall>i. counted_client_error (s3_upload_file E i)"
    by (rule always_counted)
  then obtain w' where w': "upload_loop E p b k n 0 w = Some (Inr False, w')"
    "trace w' = trace w @ concat (map (\<lambda>i. [UploadFile p b k, Sleep (2 ^ Suc i)]) [0..<n])"
    using upload_loop_always_failing [OF _ assms(2), of E b k n 0] by blast
  have "[0..<3] = [0, Suc 0, Suc (Suc 0)]"
    by (simp add: upt_conv_Cons)
  with w' show ?thesis
    by (auto simp add: upload_file_with_retry_def)
qed

theorem sleeps_after_every_failed_attempt_witness:
  "\<exists>w'. upload_file_with_retry (example_env [] always_fails) ''/tmp/bkt/a.txt'' ''bkt'' ''a.txt'' 3
           staged_world = Some (Inr False, w')
       \<and> trace w' = [UploadFile ''/tmp/bkt/a.txt'' ''bkt'' ''a.txt'', Sleep 2,
                      UploadFile ''/tmp/bkt/a.txt'' ''bkt'' ''a.txt'', Sleep 4,
                      UploadFile ''/tmp/bkt/a.txt'' ''bkt'' ''a.txt'', Sleep 8]"
proof -
  let ?E = "example_env [] always_fails"
  have w: "files staged_world ''/tmp/bkt/a.txt'' = Some ''bytes of a.txt''"
    "trace staged_world = []"
    by (simp_all add: staged_world_def empty_world_def)
  have f: "\<forall>i. \<exists>code msg. s3_upload_file ?E i = Some (ClientError code msg)
                        \<and> code \<noteq> ''ExpiredToken''"
    by (simp add: example_env_def always_fails_def)
  show ?thesis
    using sleeps_after_every_failed_attempt [OF f w(1), of "''bkt''" "''a.txt''" 3]
    by (auto simp add: w)
qed




subsection \<open>What the retry loop spends its budget on\<close>

lemma upload_file_counts:
  assumes "upload_file E p b k w = (res, w1)"
  shows "n_uploads w1 = Suc (n_uploads w)" "n_sleeps w1 = n_sleeps w"
    "n_refreshes w1 = n_refreshes w" "log w1 = log w"
  using assms
  by (auto simp add: upload_file_def Let_def n_uploads_def n_sleeps_def n_refreshes_def emit_def
        split: option.splits)

lemma upload_loop_accounted:
  assumes "upload_loop E p b k n a w = Some y"
  shows "a \<le> n \<longrightarrow> (\<exists>s f. accounted k n a w (fst y) (snd y) s f)"
proof (rule upload_loop.raw_induct
    [where P = "\<lambda>E p b k n a w y. a \<le> n \<longrightarrow> (\<exists>s f. accounted k n a w (fst y) (snd y) s f)",
     OF _ assms], goal_cases)
  case (1 loop E p b k n a w y)
  note IH = "1"(1) and eq = "1"(2)
  show ?case
  proof (cases "a < n")
    case False
    with eq have "y = (Inr False, w)" by simp
    with False have "a \<le> n \<longrightarrow> accounted k n a w (fst y) (snd y) 0 0"
      by (simp add: accounted_def)
    then show ?thesis by blast
  next
    case True
    obtain res w1 where u: "upload_file E p b k w = (res, w1)"
      by (cases "upload_file E p b k w")
    note c = upload_file_counts [OF u]
    show ?thesis
    proof (cases res)
      case None
      with True u eq have
        "y = (Inr True, logger INFO (k @ '' uploaded successfully on attempt ''
                                       @ string_of_nat (a + 1) @ ''.'') w1)"
        by simp
      with True c have "accounted k n a w (fst y) (snd y) 0 0"
        by (simp add: accounted_def)
      then show ?thesis by blast
    next
      case (Some e)
      show ?thesis
      proof (cases e)
        case (OtherError t)
        with Some True u eq have "y = (Inl (OtherError t), w1)" by simp
        with True c have "accounted k n a w (fst y) (snd y) 0 0"
          by (simp add: accounted_def)
        then show ?thesis by blast
      next
        case (ClientError code msg)
        show ?thesis
        proof (cases "code = ''ExpiredToken''")
          case expired: True
          let ?w2 = "refresh_credentials
                       (logger WARNING ''AWS session expired. Requesting new credentials.'' w1)"
          from expired ClientError Some True u eq have "loop E p b k n a ?w2 = Some y"
            by simp
          with True obtain s f where "accounted k n a ?w2 (fst y) (snd y) s f"
            using IH by fastforce
          with c have "accounted k n a w (fst y) (snd y) s (Suc f)"
            by (simp add: accounted_def)
          then show ?thesis by blast
        next
          case counted: False
          let ?w2 = "emit (Sleep (2 ^ (a + 1)))
                       (logger ERROR (''Failed to upload '' @ k @ '' (attempt ''
                          @ string_of_nat (a + 1 + 1) @ ''/'' @ string_of_nat n @ ''): '' @ msg) w1)"
          from counted ClientError Some True u eq have "loop E p b k n (a + 1) ?w2 = Some y"
            by simp
          with True obtain s f where "accounted k n (a + 1) ?w2 (fst y) (snd y) s f"
            using IH by fastforce
          with c have "accounted k n a w (fst y) (snd y) (Suc s) f"
            by (simp add: accounted_def)
          then show ?thesis by blast
        qed
      qed
    qed
  qed
qed

lemma expired_turn:
  assumes "a < n" and "files w p = Some c"
    and "s3_upload_file E (n_uploads w) = Some (ClientError ''ExpiredToken'' msg)"
  obtains w1 where "upload_loop E p b k n a w = upload_loop E p b k n a w1"
    and "trace w1 = trace w @ [UploadFile p b k, RefreshCredentials]"
    and "files w1 = files w" and "s3_objects w1 = s3_objects w"
    and "n_uploads w1 = Suc (n_uploads w)"
proof -
  let ?w1 = "refresh_credentials
                (logger WARNING ''AWS session expired. Requesting new credentials.''
                   (emit (UploadFile p b k) w))"
  have "upload_loop E p b k n a w = upload_loop E p b k n a ?w1"
    using upload_loop_expired [OF assms] .
  moreover have "trace ?w1 = trace w @ [UploadFile p b k, RefreshCredentials]" by simp
  moreover have "files ?w1 = files w" "s3_objects ?w1 = s3_objects w"
    "n_uploads ?w1 = Suc (n_uploads w)" by simp_all
  ultimately show ?thesis by (rule that)
qed

lemma success_turn:
  assumes "a < n" and "files w p = Some c" and "s3_upload_file E (n_uploads w) = None"
  obtains w1 where "upload_loop E p b k n a w = Some (Inr True, w1)"
    and "trace w1 = trace w @ [UploadFile p b k]"
    and "files w1 = files w" and "s3_objects w1 = (s3_objects w)(k \<mapsto> c)"
    and "dirs w1 = dirs w"
proof -
  let ?w1 = "logger INFO (k @ '' uploaded successfully on attempt ''
                          @ string_of_nat (a + 1) @ ''.'')
               ((emit (UploadFile p b k) w)\<lparr>s3_objects := (s3_objects w)(k \<mapsto> c)\<rparr>)"
  have "upload_loop E p b k n a w = Some (Inr True, ?w1)"
    using upload_loop_success [OF assms] .
  moreover have "trace ?w1 = trace w @ [UploadFile p b k]" by simp
  moreover have "files ?w1 = files w" "s3_objects ?w1 = (s3_objects w)(k \<mapsto> c)"
    "dirs ?w1 = dirs w" by simp_all
  ultimately show ?thesis by (rule that)
qed

text \<open>
  Claim C7. An authorization-expiry failure does not count against the attempt budget.
  First, one turn of the loop: when the upload fails with \<^verbatim>\<open>ExpiredToken\<close>, the loop
  goes on at the same attempt number, after a warning and a refresh of the credentials.
  Second, every run that returns, whatever the upload answered: if it slept \<open>s\<close> times
  (once after each counted failure) and refreshed \<open>f\<close> times (once after each expiry),
  then it made \<open>s + f\<close> failed upload calls, plus the last one when that succeeded or
  raised; the counted failures never exceed the budget; the run gives up exactly when
  they reach it, however many expiries there were; and a success is logged as attempt
  \<open>s + 1\<close>.
\<close>

theorem expired_token_keeps_attempt_budget:
  shows "(a < n \<and> files w0 p = Some c0
           \<and> s3_upload_file E (n_uploads w0) = Some (ClientError ''ExpiredToken'' msg)
          \<longrightarrow> upload_loop E p b k n a w0
               = upload_loop E p b k n a
                   (refresh_credentials
                      (logger WARNING ''AWS session expired. Requesting new credentials.''
                         (emit (UploadFile p b k) w0))))
       \<and> (upload_file_with_retry E p b k n w = Some (r, w')
          \<longrightarrow> (\<exists>s f. n_sleeps w' = n_sleeps w + s \<and> n_refreshes w' = n_refreshes w + f
                  \<and> n_uploads w' = n_uploads w + s + f + (if r = Inr False then 0 else 1)
                  \<and> s \<le> n \<and> (r = Inr False \<longleftrightarrow> s = n)
                  \<and> (r = Inr True \<longrightarrow>
                       last (log w') = (INFO, k @ '' uploaded successfully on attempt ''
                                                @ string_of_nat (s + 1) @ ''.''))))"
proof (intro conjI impI)
  assume "a < n \<and> files w0 p = Some c0
           \<and> s3_upload_file E (n_uploads w0) = Some (ClientError ''ExpiredToken'' msg)"
  then show "upload_loop E p b k n a w0
               = upload_loop E p b k n a
                   (refresh_credentials
                      (logger WARNING ''AWS session expired. Requesting new credentials.''
                         (emit (UploadFile p b k) w0)))"
    using upload_loop_expired [of a n w0 p c0 E msg b k] by blast
next
  assume "upload_file_with_retry E p b k n w = Some (r, w')"
  then have "upload_loop E p b k n 0 w = Some (r, w')"
    by (simp add: upload_file_with_retry_def)
  from upload_loop_accounted [OF this] obtain s f where "accounted k n 0 w r w' s f"
    by auto
  then show "\<exists>s f. n_sleeps w' = n_sleeps w + s \<and> n_refreshes w' = n_refreshes w + f
                  \<and> n_uploads w' = n_uploads w + s + f + (if r = Inr False then 0 else 1)
                  \<and> s \<le> n \<and> (r = Inr False \<longleftrightarrow> s = n)
                  \<and> (r = Inr True \<longrightarrow>
                       last (log w') = (INFO, k @ '' uploaded successfully on attempt ''
                                                @ string_of_nat (s + 1) @ ''.''))"
    unfolding accounted_def by (intro exI [of _ s] exI [of _ f]) simp
qed

theorem expired_token_keeps_attempt_budget_witness:
  "\<exists>w'. upload_file_with_retry (example_env [] expires_then_fails) ''/tmp/bkt/a.txt'' ''bkt''
           ''a.txt'' 3 staged_world = Some (Inr True, w')
       \<and> trace w' = [UploadFile ''/tmp/bkt/a.txt'' ''bkt'' ''a.txt'', RefreshCredentials,
                      UploadFile ''/tmp/bkt/a.txt'' ''bkt'' ''a.txt'', Sleep 2,
                      UploadFile ''/tmp/bkt/a.txt'' ''bkt'' ''a.txt'', RefreshCredentials,
                      UploadFile ''/tmp/bkt/a.txt'' ''bkt'' ''a.txt'', RefreshCredentials,
                      UploadFile ''/tmp/bkt/a.txt'' ''bkt'' ''a.txt'']
       \<and> last (log w') = (INFO, ''a.txt uploaded successfully on attempt ''
                                  @ string_of_nat 2 @ ''.'')"
proof -
  let ?E = "example_env [] expires_then_fails"
  let ?p = "''/tmp/bkt/a.txt''"
  let ?U = "UploadFile ''/tmp/bkt/a.txt'' ''bkt'' ''a.txt''"
  let ?x = "Some (ClientError ''ExpiredToken'' ''The provided token has expired.'')"
  have u: "s3_upload_file ?E 0 = ?x" "counted_client_error (s3_upload_file ?E (Suc 0))"
    "s3_upload_file ?E (Suc (Suc 0)) = ?x" "s3_upload_file ?E (Suc (Suc (Suc 0))) = ?x"
    "s3_upload_file ?E (Suc (Suc (Suc (Suc 0)))) = None"
    by (simp_all add: example_env_def expires_then_fails_def always_fails_def
          counted_client_error_def)
  have w0: "files staged_world ?p = Some ''bytes of a.txt''" "n_uploads staged_world = 0"
    "trace staged_world = []"
    by (simp_all add: staged_world_def empty_world_def n_uploads_def)
  have lt: "(0::nat) < 3" "Suc 0 < 3" by simp_all
  have e1: "s3_upload_file ?E (n_uploads staged_world) = ?x" by (simp add: w0 u)
  obtain w1 where s1: "upload_loop ?E ?p ''bkt'' ''a.txt'' 3 0 staged_world
        = upload_loop ?E ?p ''bkt'' ''a.txt'' 3 0 w1"
    and w1: "trace w1 = trace staged_world @ [?U, RefreshCredentials]"
      "files w1 = files staged_world" "n_uploads w1 = Suc (n_uploads staged_world)"
    using expired_turn [OF lt(1) w0(1) e1, of "''bkt''" "''a.txt''"] by blast
  have f1: "files w1 ?p = Some ''bytes of a.txt''" by (simp add: w1 w0)
  have e2: "counted_client_error (s3_upload_file ?E (n_uploads w1))" by (simp add: w1 w0 u)
  obtain w2 where s2: "upload_loop ?E ?p ''bkt'' ''a.txt'' 3 0 w1
        = upload_loop ?E ?p ''bkt'' ''a.txt'' 3 (Suc 0) w2"
    and w2: "trace w2 = trace w1 @ [?U, Sleep (2 ^ Suc 0)]"
      "files w2 = files w1" "n_uploads w2 = Suc (n_uploads w1)"
    using retry_turn [OF lt(1) f1 e2, of "''bkt''" "''a.txt''"] by blast
  have f2: "files w2 ?p = Some ''bytes of a.txt''" by (simp add: w2 f1)
  have e3: "s3_upload_file ?E (n_uploads w2) = ?x" by (simp add: w2 w1 w0 u)
  obtain w3 where s3: "upload_loop ?E ?p ''bkt'' ''a.txt'' 3 (Suc 0) w2
        = upload_loop ?E ?p ''bkt'' ''a.txt'' 3 (Suc 0) w3"
    and w3: "trace w3 = trace w2 @ [?U, RefreshCredentials]"
      "files w3 = files w2" "n_uploads w3 = Suc (n_uploads w2)"
    using expired_turn [OF lt(2) f2 e3, of "''bkt''" "''a.txt''"] by blast
  have f3: "files w3 ?p = Some ''bytes of a.txt''" by (simp add: w3 f2)
  have e4: "s3_upload_file ?E (n_uploads w3) = ?x" by (simp add: w3 w2 w1 w0 u)
  obtain w4 where s4: "upload_loop ?E ?p ''bkt'' ''a.txt'' 3 (Suc 0) w3
        = upload_loop ?E ?p ''bkt'' ''a.txt'' 3 (Suc 0) w4"
    and w4: "trace w4 = trace w3 @ [?U, RefreshCredentials]"
      "files w4 = files w3" "n_uploads w4 = Suc (n_uploads w3)"
    using expired_turn [OF lt(2) f3 e4, of "''bkt''" "''a.txt''"] by blast
  have f4: "files w4 ?p = Some ''bytes of a.txt''" by (simp add: w4 f3)
  have e5: "s3_upload_file ?E (n_uploads w4) = None" by (simp add: w4 w3 w2 w1 w0 u)
  obtain w5 where s5: "upload_loop ?E ?p ''bkt'' ''a.txt'' 3 (Suc 0) w4 = Some (Inr True, w5)"
    and w5: "trace w5 = trace w4 @ [?U]"
    using success_turn [OF lt(2) f4 e5, of "''bkt''" "''a.txt''"] by blast
  have run: "upload_file_with_retry ?E ?p ''bkt'' ''a.txt'' 3 staged_world = Some (Inr True, w5)"
    by (simp add: upload_file_with_retry_def s1 s2 s3 s4 s5)
  have tr: "trace w5 = [?U, RefreshCredentials, ?U, Sleep 2, ?U, RefreshCredentials,
                        ?U, RefreshCredentials, ?U]"
    by (simp add: w5 w4 w3 w2 w1 w0)
  then have "n_sleeps w5 = 1" "n_sleeps staged_world = 0"
    by (simp_all add: n_sleeps_def w0)
  moreover note expired_token_keeps_attempt_budget
      [where E = ?E and p = ?p and b = "''bkt''" and k = "''a.txt''" and n = 3
         and w = staged_world and r = "Inr True" and w' = w5, THEN conjunct2, rule_format, OF run]
  then obtain s where "n_sleeps w5 = n_sleeps staged_world + s"
    "last (log w5) = (INFO, ''a.txt'' @ '' uploaded successfully on attempt ''
                              @ string_of_nat (s + 1) @ ''.'')"
    by blast
  ultimately have "last (log w5) = (INFO, ''a.txt uploaded successfully on attempt ''
                                  @ string_of_nat 2 @ ''.'')"
    by (simp add: numeral_2_eq_2)
  with run tr show ?thesis by blast
qed

section \<open>The worker\<close>



subsection \<open>What a run of the uploader leaves in the trace and the log\<close>







lemma strip_quotes_example_etag [simp]:
  "strip_quotes (CHR 0x22 # toy_digest content @ [CHR 0x22]) = toy_digest content"
  by (simp add: strip_quotes_def toy_digest_def)


text \<open>
  Claim C1. Every exit path of \<open>transfer_object\<close> for a regular object is said to
  delete the staged file. The skip, the successful upload and the exhausted upload do,
  and a source read failure stages nothing. The path of a metadata probe that fails with
  a code other than 404 does not: line 161 re-raises before any \<^verbatim>\<open>os.remove\<close>. Here
  the probe of \<^verbatim>\<open>broken.txt\<close> fails with code 500; the worker ends with that exception
  and the staged file is still on disk.
\<close>

theorem probe_failure_leaves_staged_file:
  "map_option (\<lambda>(r, w'). (r, files w' ''/tmp/bkt/broken.txt''))
     (transfer_object (example_env [] always_succeeds) (obj ''broken.txt'') ''/tmp/bkt'' ''src''
        ''bkt'' 3 empty_world)
   = Some (Inl (ClientError ''500'' ''Internal Server Error''), Some ''bytes of broken.txt'')"
proof -
  let ?E = "example_env [] always_succeeds"
  let ?o = "obj ''broken.txt''"
  have o: "\<not> endswith (name ?o) ''/''"
    "swift_get_object ?E ''src'' (name ?o) = Inr ''bytes of broken.txt''"
    "stages (path_join ''/tmp/bkt'' (name ?o)) empty_world"
    "s3_head_object ?E (s3_objects empty_world) ''bkt'' (name ?o)
       = Inl (ClientError ''500'' ''Internal Server Error'')"
    "''500'' \<noteq> ''404''"
    by (simp_all add: obj_def endswith_def example_env_def stages_iff dirname_def basename_def
          empty_world_def startswith_def path_join_def)
  have p: "path_join ''/tmp/bkt'' (name ?o) = ''/tmp/bkt/broken.txt''"
    by (simp add: obj_def path_join_def startswith_def endswith_def)
  show ?thesis
    by (simp add: transfer_object_probe_failure [OF o] p)
qed

section \<open>The pool\<close>




section \<open>main\<close>

lemma list_openstack_objects_empty:
  assumes "swift_get_container E c None = Inr []"
  shows "list_openstack_objects E c w =
           Some (Inr [], logger DEBUG (''Retrieved '' @ string_of_nat (length ([] :: swift_object list))
                    @ '' objects from container '' @ [CHR 0x27] @ c @ [CHR 0x27] @ ''.'')
                   (emit (GetContainer c None) w))"
  unfolding list_openstack_objects_def
  by (subst list_openstack_loop.simps) (simp add: assms Let_def)

lemma makedirs_succeeds:
  assumes "p \<noteq> []" and "\<forall>d \<in> set (dir_chain [] p). files w d = None"
  shows "makedirs p w = Inr (w\<lparr>dirs := dirs w \<union> set (dir_chain [] p)\<rparr>)"
  using assms dir_chain_whole [of "[]" p] by (auto simp add: makedirs_def)

text \<open>
  Claim C9. When the listing of the source container is empty (its first page is empty),
  \<open>main\<close> logs a warning and returns at once. This is for a run that gets as far as
  the listing: the staging directory could be made (its path is written plainly and no
  regular file is at it or above it), the bucket was found and the bandwidth limit is
  positive. The staging
  directory is still there when \<open>main\<close> returns; the only calls made are the bucket
  check and the one listing request of the source, so the destination is not listed
  again; and the log holds the opening line and the warning only, with no count reported
  and no removal of temporary files. The number of workers plays no part: the pool is
  not created.
\<close>

theorem empty_listing_returns_early:
  assumes "\<forall>d \<in> set (dir_chain [] (''/tmp/'' @ b)). files w d = None"
    and "s3_head_bucket E b = None"
    and "0 < bandwidthLimitMb"
    and "swift_get_container E c None = Inr []"
    and "plain (''/tmp/'' @ b)"
  shows "\<exists>w'. main E c b maxWorkers regionName bandwidthLimitMb w = Some (Inr (), w')
           \<and> ''/tmp/'' @ b \<in> dirs w'
           \<and> trace w' = trace w @ [HeadBucket b, GetContainer c None]
           \<and> log w' = log w @
               [(INFO, ''Starting OpenStack to S3 transfer...''),
                (WARNING, ''No objects found in OpenStack container.'')]
           \<and> files w' = files w \<and> s3_objects w' = s3_objects w"
proof -
  let ?w1 = "logger INFO ''Starting OpenStack to S3 transfer...'' w"
  let ?w2 = "?w1\<lparr>dirs := dirs ?w1 \<union> set (dir_chain [] (''/tmp/'' @ b))\<rparr>"
  let ?w3 = "emit (HeadBucket b) ?w2"
  let ?w4 = "logger DEBUG (''Retrieved '' @ string_of_nat (length ([] :: swift_object list))
                    @ '' objects from container '' @ [CHR 0x27] @ c @ [CHR 0x27] @ ''.'')
               (emit (GetContainer c None) ?w3)"
  let ?w' = "logger WARNING ''No objects found in OpenStack container.'' ?w4"
  have "\<forall>d \<in> set (dir_chain [] (''/tmp/'' @ b)). files ?w1 d = None"
    using assms(1) by simp
  then have tmp: "create_temp_directory (''/tmp/'' @ b) ?w1 = Inr ?w2"
    unfolding create_temp_directory_def by (intro makedirs_succeeds) simp_all
  have bucket: "ensure_bucket_exists E b ?w2 = (Inr (), ?w3)"
    by (simp add: ensure_bucket_exists_def assms(2) Let_def)
  have bw: "\<not> bandwidthLimitMb * 1024 * 1024 \<le> 0"
    using assms(3) by simp
  have listing: "list_openstack_objects E c ?w3 = Some (Inr [], ?w4)"
    by (rule list_openstack_objects_empty [OF assms(4)])
  have run: "main E c b maxWorkers regionName bandwidthLimitMb w = Some (Inr (), ?w')"
    unfolding main_def Let_def tmp sum.case bucket prod.case if_not_P [OF bw] listing option.case
    by simp
  have d: "''/tmp/'' @ b \<in> dirs ?w'"
    using dir_chain_whole [of "[]" "''/tmp/'' @ b"] by simp
  have "trace ?w' = trace w @ [HeadBucket b, GetContainer c None]"
    "log ?w' = log w @
               [(INFO, ''Starting OpenStack to S3 transfer...''),
                (WARNING, ''No objects found in OpenStack container.'')]"
    "files ?w' = files w" "s3_objects ?w' = s3_objects w"
    by simp_all
  with run d show ?thesis by blast
qed

theorem empty_listing_returns_early_witness:
  "\<exists>w'. main (example_env [] always_succeeds) ''src'' ''bkt'' 4 ''eu-west-1'' 10 empty_world
           = Some (Inr (), w')
       \<and> ''/tmp/bkt'' \<in> dirs w'
       \<and> trace w' = [HeadBucket ''bkt'', GetContainer ''src'' None]
       \<and> log w' = [(INFO, ''Starting OpenStack to S3 transfer...''),
                    (WARNING, ''No objects found in OpenStack container.'')]"
proof -
  let ?E = "example_env [] always_succeeds"
  have f: "\<forall>d \<in> set (dir_chain [] (''/tmp/'' @ ''bkt'')). files empty_world d = None"
    by (simp add: empty_world_def)
  have h: "s3_head_bucket ?E ''bkt'' = None" "(0::int) < 10"
    "swift_get_container ?E ''src'' None = Inr []" "plain (''/tmp/'' @ ''bkt'')"
    by (simp_all add: example_env_def plain_def startswith_def)
  have w: "trace empty_world = []" "log empty_world = []"
    by (simp_all add: empty_world_def)
  show ?thesis
    using empty_listing_returns_early [OF f h, of 4 "''eu-west-1''"]
    by (auto simp add: w)
qed

end
